theory Spec2Isabelle
  imports Complex_Main "HOL-Library.AList" "HOL-Library.Multiset" "HOL-Library.Log_Nat"
begin

text \<open>
  The scavenger-hunt backend: classes scan stations (\<open>recordScan\<close>), a class's progress is
  queried (\<open>getClassProgress\<close>), and an administrator draws winners among the classes that
  found every active station (\<open>runDrawing\<close>, \<open>getEligibleClassesForDrawing\<close>). The
  controllers are modelled as functions on an explicit store; what they read from the
  clock and from \<open>Math.random()\<close> is a parameter of the call.
\<close>

section \<open>Data model\<close>

text \<open>
  The documents of the four collections, with the paths the controllers read or write.
  An ObjectId is a natural number, a Date is its \<open>getTime()\<close> value (milliseconds, an
  integer), and a path that may be \<open>undefined\<close> or \<open>null\<close> is an option.
\<close>

type_synonym oid = nat
type_synonym date = int

subsection \<open>JavaScript numbers\<close>

text \<open>
  A JavaScript number is an IEEE 754 double. A number that a request body or a stored
  document carries is written in the model as the rational its decimal denotes, and is
  read rounded to the nearest double (\<open>fl\<close>); \<open>+\<close>, \<open>-\<close>, \<open>*\<close> and \<open>/\<close> answer the exact result
  rounded the same way. A count or a length is an integer below \<open>2^53\<close> and is its own
  double.

  \<open>binade x\<close> is the exponent \<open>e\<close> with \<open>2^e \<le> |x| < 2^(e + 1)\<close>. The doubles around \<open>x\<close> are
  the integer multiples of \<open>2^(e - 52)\<close> (53 significant bits), and of \<open>2^(-1074)\<close> in the
  subnormal range; \<open>rne\<close> rounds to the nearest integer, a tie to the even one. Numbers
  beyond the largest double (which would round to \<open>Infinity\<close>) and \<open>NaN\<close> are outside the
  model.
\<close>

definition binade :: "rat \<Rightarrow> int" where
  "binade x =
     (let (a, b) = quotient_of \<bar>x\<bar>;
          d = bitlen a - bitlen b
      in if 2 powi d \<le> \<bar>x\<bar> then d else d - 1)"

definition rne :: "rat \<Rightarrow> int" where
  "rne y =
     (let f = \<lfloor>y\<rfloor>; d = y - rat_of_int f
      in if d < 1 / 2 then f else if 1 / 2 < d then f + 1 else if even f then f else f + 1)"

definition fl :: "rat \<Rightarrow> rat" where
  "fl x = (if x = 0 then 0
           else (let u = 2 powi (max (binade x - 52) (- 1074))
                 in rat_of_int (rne (x / u)) * u))"

subsection \<open>Documents\<close>

text \<open>models/Station (StationSchema): only \<open>_id\<close> and \<open>isActive\<close> decide anything.\<close>

record station =
  station_id :: oid
  station_isActive :: bool

text \<open>models/Class (ClassSchema).\<close>

record class_doc =
  class_id :: oid
  teacher_id :: oid
  class_isActive :: bool
  registeredAt :: "date option"
  stationsScanned :: "oid list"
  isCompleted :: bool
  lastScanAt :: "date option"
  completedAt :: "date option"

text \<open>
  models/Scan.js (ScanSchema): the declared paths \<open>classId\<close>, \<open>stationId\<close>, \<open>scannedAt\<close>. A
  Scan document has these paths and no other (\<open>scannedBy\<close> is never written).
\<close>

record scan =
  classId :: oid
  stationId :: oid
  scannedAt :: date

text \<open>models/Drawing.js (DrawingSchema).\<close>

datatype drawing_status = Pending | Completed

record winner =
  winner_class :: oid
  prize :: string
  notified :: bool

text \<open>
  \<open>weightingFactors\<close>: two numbers as the document was written; a path holding \<open>null\<close> is
  \<open>None\<close>. (A drawing created without a factor holds the schema's default 1.)
\<close>

record weighting =
  completionTime :: "rat option"
  stationsFound :: "rat option"

record drawing =
  drawing_id :: oid
  eligibleClasses :: "oid list"
  winners :: "winner list"
  weightingFactors :: weighting
  status :: drawing_status

text \<open>
  The persistence store: one list of documents per collection, in the store's natural
  order. \<open>findById\<close> answers the first document with the id, \<open>save\<close> replaces the first
  document with the id of the saved one (an update of one document by \<open>_id\<close>). A save or
  a query that the store rejects is outside the model: the store is total.
\<close>

record store =
  station_docs :: "station list"
  class_docs :: "class_doc list"
  scan_docs :: "scan list"
  drawing_docs :: "drawing list"

definition Station_findById :: "store \<Rightarrow> oid \<Rightarrow> station option" where
  "Station_findById st i = find (\<lambda>s. station_id s = i) (station_docs st)"

definition Station_find_active :: "store \<Rightarrow> station list" where
  "Station_find_active st = filter station_isActive (station_docs st)"

definition Station_count_active :: "store \<Rightarrow> nat" where
  "Station_count_active st = length (Station_find_active st)"

definition Class_findById :: "store \<Rightarrow> oid \<Rightarrow> class_doc option" where
  "Class_findById st i = find (\<lambda>c. class_id c = i) (class_docs st)"

definition Class_find_active :: "store \<Rightarrow> class_doc list" where
  "Class_find_active st = filter class_isActive (class_docs st)"

fun replace_class :: "class_doc \<Rightarrow> class_doc list \<Rightarrow> class_doc list" where
  "replace_class c [] = []"
| "replace_class c (d # ds) =
     (if class_id d = class_id c then c # ds else d # replace_class c ds)"

definition Class_save :: "class_doc \<Rightarrow> store \<Rightarrow> store" where
  "Class_save c st = st\<lparr>class_docs := replace_class c (class_docs st)\<rparr>"

definition Scan_findOne :: "store \<Rightarrow> oid \<Rightarrow> oid \<Rightarrow> scan option" where
  "Scan_findOne st c s = find (\<lambda>x. classId x = c \<and> stationId x = s) (scan_docs st)"

definition Scan_create :: "scan \<Rightarrow> store \<Rightarrow> store" where
  "Scan_create x st = st\<lparr>scan_docs := scan_docs st @ [x]\<rparr>"

text \<open>
  A query of the Scan collection by one path and an ObjectId: \<open>Scan.find({ p: id })\<close> and
  \<open>Scan.countDocuments({ p: id })\<close>. \<open>scan_path x p\<close> is the ObjectId the document holds
  under the path \<open>p\<close>; a document holds nothing under a path it does not have, so a
  query by such a path matches no document.
\<close>

definition scan_path :: "scan \<Rightarrow> string \<Rightarrow> oid option" where
  "scan_path x p = (if p = ''classId'' then Some (classId x)
                    else if p = ''stationId'' then Some (stationId x) else None)"

definition Scan_find_by :: "store \<Rightarrow> string \<Rightarrow> oid \<Rightarrow> scan list" where
  "Scan_find_by st p i = filter (\<lambda>x. scan_path x p = Some i) (scan_docs st)"

definition Scan_countDocuments :: "store \<Rightarrow> string \<Rightarrow> oid \<Rightarrow> nat" where
  "Scan_countDocuments st p i = length (Scan_find_by st p i)"

definition Drawing_findById :: "store \<Rightarrow> oid \<Rightarrow> drawing option" where
  "Drawing_findById st i = find (\<lambda>d. drawing_id d = i) (drawing_docs st)"

fun replace_drawing :: "drawing \<Rightarrow> drawing list \<Rightarrow> drawing list" where
  "replace_drawing d [] = []"
| "replace_drawing d (e # es) =
     (if drawing_id e = drawing_id d then d # es else e # replace_drawing d es)"

definition Drawing_save :: "drawing \<Rightarrow> store \<Rightarrow> store" where
  "Drawing_save d st = st\<lparr>drawing_docs := replace_drawing d (drawing_docs st)\<rparr>"

text \<open>
  utils/errorResponse: an error carries a message and an HTTP status code. The messages
  are the controller's, without the interpolated names and ids.
\<close>

datatype message =
    InvalidWinners | DrawingNotFound | DrawingCompleted | NoActiveStations | NoEligibleClasses
  | MissingScanFields | StationNotFound | StationNotActive | ClassNotFound | ClassNotActive
  | NotAuthorized

datatype error = ErrorResponse (error_message: message) (statusCode: nat)

section \<open>recordScan (POST /scans)\<close>

record scan_request =
  req_classId :: "oid option"
  req_stationQRCode :: "oid option"

text \<open>
  The three readings of the clock one call can make: the default of \<open>scannedAt\<close> when the
  Scan is created, \<open>new Date()\<close> for \<open>lastScanAt\<close>, and \<open>new Date()\<close> for \<open>completedAt\<close>.
\<close>

record clock =
  now_scannedAt :: date
  now_lastScanAt :: date
  now_completedAt :: date

record scan_response =
  res_status :: nat
  res_existing :: bool
  res_station :: oid

text \<open>The repeat-scan branch (lines 600-635).\<close>

definition existing_scan_branch ::
  "store \<Rightarrow> station \<Rightarrow> class_doc \<Rightarrow> clock \<Rightarrow> (error + scan_response) \<times> store" where
  "existing_scan_branch st stn classObj clk =
     (let oldLastScanAt = lastScanAt classObj;
          classObj' = classObj\<lparr>lastScanAt := Some (now_lastScanAt clk)\<rparr>;
          st' = (if oldLastScanAt = None \<or> oldLastScanAt = Some 0
                    \<or> oldLastScanAt \<noteq> Some (now_lastScanAt clk)
                 then Class_save classObj' st else st)
      in (Inr \<lparr>res_status = 200, res_existing = True, res_station = station_id stn\<rparr>, st'))"

text \<open>The completion check of a first scan (lines 664-680).\<close>

definition check_completion :: "store \<Rightarrow> clock \<Rightarrow> class_doc \<Rightarrow> class_doc" where
  "check_completion st clk classObj =
     (if \<not> isCompleted classObj then
        (let totalActiveStations = Station_count_active st in
         if length (stationsScanned classObj) \<ge> totalActiveStations \<and> totalActiveStations > 0
         then classObj\<lparr>isCompleted := True, completedAt := Some (now_completedAt clk)\<rparr>
         else if totalActiveStations = 0 \<and> length (stationsScanned classObj) = 0
         then classObj\<lparr>isCompleted := True, completedAt := Some (now_completedAt clk)\<rparr>
         else classObj)
      else classObj)"

text \<open>The first-scan branch (lines 637-712).\<close>

definition new_scan_branch ::
  "store \<Rightarrow> station \<Rightarrow> class_doc \<Rightarrow> clock \<Rightarrow> (error + scan_response) \<times> store" where
  "new_scan_branch st stn classObj clk =
     (let st1 = Scan_create \<lparr>classId = class_id classObj, stationId = station_id stn,
                             scannedAt = now_scannedAt clk\<rparr> st;
          c1 = (if station_id stn \<notin> set (stationsScanned classObj)
                then classObj\<lparr>stationsScanned := stationsScanned classObj @ [station_id stn]\<rparr>
                else classObj);
          c2 = c1\<lparr>lastScanAt := Some (now_lastScanAt clk)\<rparr>;
          c3 = check_completion st1 clk c2
      in (Inr \<lparr>res_status = 201, res_existing = False, res_station = station_id stn\<rparr>,
          Class_save c3 st1))"

definition recordScan ::
  "store \<Rightarrow> scan_request \<Rightarrow> clock \<Rightarrow> (error + scan_response) \<times> store" where
  "recordScan st req clk =
     (case (req_classId req, req_stationQRCode req) of
        (Some cid, Some stationQRCode) \<Rightarrow>
          (case Station_findById st stationQRCode of
             None \<Rightarrow> (Inl (ErrorResponse StationNotFound 404), st)
           | Some stn \<Rightarrow>
               if \<not> station_isActive stn then (Inl (ErrorResponse StationNotActive 400), st)
               else
                 (case Class_findById st cid of
                    None \<Rightarrow> (Inl (ErrorResponse ClassNotFound 404), st)
                  | Some classObj \<Rightarrow>
                      if \<not> class_isActive classObj
                      then (Inl (ErrorResponse ClassNotActive 400), st)
                      else
                        (case Scan_findOne st cid (station_id stn) of
                           Some existingScan \<Rightarrow> existing_scan_branch st stn classObj clk
                         | None \<Rightarrow> new_scan_branch st stn classObj clk)))
      | _ \<Rightarrow> (Inl (ErrorResponse MissingScanFields 400), st))"

section \<open>getClassProgress (GET /classes/:id/progress)\<close>

record user =
  user_id :: oid
  user_role :: string

record progress =
  completedCount :: nat
  totalStations :: nat
  progressPercentage :: int
  progress_isCompleted :: bool
  progress_completedAt :: "date option"
  progress_lastScanAt :: "date option"
  progress_completionTime :: "rat option"

text \<open>
  The controller counts the Scans of the class under the declared path \<open>classId\<close> and,
  when that count is 0, under the paths \<open>class\<close> and \<open>class._id\<close>, which no Scan document has.
  \<open>Math.round\<close> rounds half up, as \<^const>\<open>round\<close> does; the quotient, the product with 100,
  the difference of the two dates and its quotient by 60000 are doubles.
\<close>

definition getClassProgress :: "store \<Rightarrow> user \<Rightarrow> oid \<Rightarrow> error + progress" where
  "getClassProgress st usr i =
     (case Class_findById st i of
        None \<Rightarrow> Inl (ErrorResponse ClassNotFound 404)
      | Some classObj \<Rightarrow>
          if teacher_id classObj \<noteq> user_id usr \<and> user_role usr \<noteq> ''admin''
          then Inl (ErrorResponse NotAuthorized 403)
          else
            (let totalActiveStations = Station_count_active st;
                 scanCount = Scan_countDocuments st ''classId'' i;
                 scanCount = (if scanCount = 0 then Scan_countDocuments st ''class'' i
                              else scanCount);
                 scanCount = (if scanCount = 0 then Scan_countDocuments st ''class._id'' i
                              else scanCount);
                 completedCount = (if scanCount > 0 then scanCount
                                   else length (stationsScanned classObj));
                 progressPercentage =
                   (if totalActiveStations > 0
                    then round (fl (fl (rat_of_nat completedCount / rat_of_nat totalActiveStations)
                                    * 100))
                    else 0);
                 completionTime =
                   (case (isCompleted classObj, completedAt classObj, registeredAt classObj) of
                      (True, Some finished, Some registered) \<Rightarrow>
                        Some (fl (fl (rat_of_int (finished - registered)) / (1000 * 60)))
                    | _ \<Rightarrow> None)
             in Inr \<lparr>completedCount = completedCount, totalStations = totalActiveStations,
                     progressPercentage = progressPercentage,
                     progress_isCompleted = isCompleted classObj,
                     progress_completedAt = completedAt classObj,
                     progress_lastScanAt = lastScanAt classObj,
                     progress_completionTime = completionTime\<rparr>))"

section \<open>runDrawing (POST /drawings/:id/run) and the eligible-classes query\<close>

text \<open>
  The drawing controller asks for the Scans of a class by \<open>Scan.find({ class: id })\<close> and
  reads \<open>station\<close> and \<open>scannedAt\<close> of each answered document (lines 252-253, 270-277,
  424-425). A \<open>scan_view\<close> is an answered document as the controller reads it, and the
  controllers below take the answer to the query as an argument, a function from the
  class id to the answered documents: what they do with the answer is then stated for
  every answer (the controller's unit tests supply one by a mock).
\<close>

record scan_view =
  station :: oid
  scannedAt' :: date

type_synonym scan_query = "oid \<Rightarrow> scan_view list"

text \<open>
  The answer of the store itself. models/Scan.js declares \<open>classId\<close> and \<open>stationId\<close>, and
  \<open>recordScan\<close> writes these: the paths \<open>class\<close> and \<open>station\<close> of the drawing controller are not
  paths of any Scan document. \<open>read_scan\<close> is the view of a document, \<open>None\<close> when it holds
  no \<open>station\<close> (there the controller's \<open>s.station.toString()\<close> throws); no such document is
  ever viewed, because the query by \<open>class\<close> answers none. (A mapper set to drop undeclared
  paths from a filter would answer every Scan instead, and the controller would throw
  at the first of them: the class is listed in neither case.)
\<close>

definition read_scan :: "scan \<Rightarrow> scan_view option" where
  "read_scan x =
     map_option (\<lambda>s. \<lparr>station = s, scannedAt' = scannedAt x\<rparr>) (scan_path x ''station'')"

definition Scan_find_class :: "store \<Rightarrow> scan_query" where
  "Scan_find_class st i = List.map_filter read_scan (Scan_find_by st ''class'' i)"

text \<open>
  The request body: \<open>numberOfWinners\<close> is the number the body carries, or missing;
  \<open>prizeDescription || "Scavenger Hunt Prize"\<close>: a missing or empty description gives the
  default. The controller does not ask the number to be an integer.
\<close>

record run_request =
  params_id :: oid
  numberOfWinners :: "rat option"
  prizeDescription :: "string option"

definition prize_text :: "string option \<Rightarrow> string" where
  "prize_text p = (case p of None \<Rightarrow> ''Scavenger Hunt Prize''
                   | Some d \<Rightarrow> if d = [] then ''Scavenger Hunt Prize'' else d)"

text \<open>\<open>new Set(scans.map(s => s.station.toString()))\<close> and its size.\<close>

definition uniqueStationsScanned :: "scan_view list \<Rightarrow> oid list" where
  "uniqueStationsScanned scans = remdups (map station scans)"

definition stationsFoundCount :: "scan_view list \<Rightarrow> nat" where
  "stationsFoundCount scans = length (uniqueStationsScanned scans)"

text \<open>\<open>x || 0\<close> on a weighting factor: the double read, 0 for \<open>null\<close>.\<close>

definition or_zero :: "rat option \<Rightarrow> rat" where
  "or_zero x = (case x of None \<Rightarrow> 0 | Some v \<Rightarrow> fl v)"

text \<open>
  Lines 270-279. \<open>sort\<close> with the comparator \<open>a.scannedAt - b.scannedAt\<close> is a stable
  ascending sort; \<open>lastScanByStation\<close> is an object written in the sorted order, a later
  write to a key replacing the earlier value in place; \<open>Math.max\<close> of no argument is
  \<open>-Infinity\<close>, here \<open>None\<close>. The minutes are \<open>None\<close> when there is no scan: the
  controller asks only under its guard \<open>scans.length > 0\<close>.
\<close>

definition lastScanByStation :: "scan_view list \<Rightarrow> (oid \<times> date) list" where
  "lastScanByStation sortedScans =
     foldl (\<lambda>m s. AList.update (station s) (scannedAt' s) m) [] sortedScans"

fun Math_max :: "int list \<Rightarrow> int option" where
  "Math_max [] = None"
| "Math_max (v # vs) = Some (fold max vs v)"

definition completionTimeMinutes :: "scan_view list \<Rightarrow> rat option" where
  "completionTimeMinutes scans =
     (let sortedScans = sort_key scannedAt' scans in
      case sortedScans of
        [] \<Rightarrow> None
      | first # _ \<Rightarrow>
          (let startTime = scannedAt' first in
           case Math_max (map snd (lastScanByStation sortedScans)) of
             None \<Rightarrow> None
           | Some endTime \<Rightarrow>
               Some (fl (fl (rat_of_int (endTime - startTime)) / (1000 * 60)))))"

text \<open>
  Lines 262-298: the weight of an eligible class. Each \<open>+=\<close> and the product are double
  operations; \<open>Math.round\<close> of the resulting double is exact.
\<close>

definition classWeight :: "weighting \<Rightarrow> nat \<Rightarrow> scan_view list \<Rightarrow> int" where
  "classWeight factors totalPossibleStations scans =
     (let weight = fl (1 + fl (rat_of_nat (stationsFoundCount scans)
                               * or_zero (stationsFound factors)));
          weight =
            (if stationsFoundCount scans = totalPossibleStations \<and> length scans > 0 then
               (case (completionTimeMinutes scans, completionTime factors) of
                  (Some minutes, Some factor) \<Rightarrow>
                    if minutes > 0 \<and> fl factor \<noteq> 0 then fl (weight + fl factor) else weight
                | _ \<Rightarrow> weight)
             else weight)
      in max 1 (round weight))"

text \<open>
  Lines 251-303: the loop over the active classes. It answers the ids pushed onto
  \<open>drawing.eligibleClasses\<close> and the entry pool. An entry is the class id: the
  denormalised display fields the controller copies beside it are not read again.
\<close>

fun eligibility_pass ::
  "scan_query \<Rightarrow> weighting \<Rightarrow> nat \<Rightarrow> class_doc list \<Rightarrow> oid list \<times> oid list" where
  "eligibility_pass Scan_find factors totalPossibleStations [] = ([], [])"
| "eligibility_pass Scan_find factors totalPossibleStations (classObj # rest) =
     (let scans = Scan_find (class_id classObj);
          (pushed, entries) = eligibility_pass Scan_find factors totalPossibleStations rest
      in if stationsFoundCount scans < totalPossibleStations then (pushed, entries)
         else (class_id classObj # pushed,
               replicate (nat (classWeight factors totalPossibleStations scans)) (class_id classObj)
                 @ entries))"

text \<open>
  Lines 314-317: the Fisher-Yates shuffle, \<open>i\<close> from \<open>length - 1\<close> down to 1. The random
  source is a parameter: \<open>rnd k\<close> is what the \<open>k\<close>-th call of \<open>Math.random()\<close> answers, a
  double in \<open>[0, 1)\<close>; its product with \<open>i + 1\<close> is a double operation.
\<close>

fun shuffle :: "(nat \<Rightarrow> rat) \<Rightarrow> nat \<Rightarrow> nat \<Rightarrow> 'a list \<Rightarrow> 'a list" where
  "shuffle rnd k 0 xs = xs"
| "shuffle rnd k (Suc i') xs =
     (let i = Suc i';
          j = nat \<lfloor>fl (rnd k * rat_of_nat (i + 1))\<rfloor>
      in shuffle rnd (Suc k) i' (xs[i := xs ! j, j := xs ! i]))"

text \<open>
  Lines 319-329: the loop over the shuffled pool, which takes a class not yet picked
  while \<open>winners.length < numberOfWinners\<close> and stops once \<open>winners.length >= numberOfWinners\<close>;
  \<open>n\<close> is the double read from the body. \<open>pickedClassIds\<close> is a Set of ObjectId objects; all
  entries of a class carry the one \<open>_id\<close> object of its class document, so membership in
  the Set is membership of the id.
\<close>

fun pick_winners :: "rat \<Rightarrow> string \<Rightarrow> oid list \<Rightarrow> winner list \<Rightarrow> oid set \<Rightarrow> winner list" where
  "pick_winners n p [] winners' pickedClassIds = winners'"
| "pick_winners n p (entry # rest) winners' pickedClassIds =
     (let (winners', pickedClassIds) =
            (if rat_of_nat (length winners') < n \<and> entry \<notin> pickedClassIds
             then (winners' @ [\<lparr>winner_class = entry, prize = p, notified = False\<rparr>],
                   insert entry pickedClassIds)
             else (winners', pickedClassIds))
      in if rat_of_nat (length winners') \<ge> n then winners'
         else pick_winners n p rest winners' pickedClassIds)"

text \<open>
  Lines 225-336. \<open>!numberOfWinners || numberOfWinners <= 0\<close> rejects a missing number, 0 and
  the negative numbers.
\<close>

definition runDrawing ::
  "scan_query \<Rightarrow> (nat \<Rightarrow> rat) \<Rightarrow> store \<Rightarrow> run_request \<Rightarrow> (error + drawing) \<times> store" where
  "runDrawing Scan_find rnd st req =
     (case map_option fl (numberOfWinners req) of
        None \<Rightarrow> (Inl (ErrorResponse InvalidWinners 400), st)
      | Some n \<Rightarrow>
          if n = 0 \<or> n \<le> 0 then (Inl (ErrorResponse InvalidWinners 400), st)
          else
            (case Drawing_findById st (params_id req) of
               None \<Rightarrow> (Inl (ErrorResponse DrawingNotFound 404), st)
             | Some drawing \<Rightarrow>
                 if status drawing = Completed
                 then (Inl (ErrorResponse DrawingCompleted 409), st)
                 else
                   (let totalPossibleStations = length (Station_find_active st) in
                    if totalPossibleStations = 0
                    then (Inl (ErrorResponse NoActiveStations 400), st)
                    else
                      (let activeClasses = Class_find_active st;
                           (pushed, eligibleEntries) =
                              eligibility_pass Scan_find (weightingFactors drawing)
                                totalPossibleStations activeClasses
                       in if length eligibleEntries = 0
                          then (Inl (ErrorResponse NoEligibleClasses 400), st)
                          else
                            (let shuffled = shuffle rnd 0 (length eligibleEntries - 1)
                                              eligibleEntries;
                                 winners' = pick_winners n (prize_text (prizeDescription req))
                                             shuffled [] {};
                                 drawing' = drawing\<lparr>
                                    eligibleClasses := eligibleClasses drawing @ pushed,
                                    winners := winners', status := Completed\<rparr>
                             in (Inr drawing', Drawing_save drawing' st))))))"

text \<open>Lines 410-448: the eligible-classes query.\<close>

record eligible_output =
  out_id :: oid
  out_stationsFound :: nat
  out_totalStations :: nat
  out_isEligible :: bool

definition getEligibleClassesForDrawing ::
  "scan_query \<Rightarrow> store \<Rightarrow> error + eligible_output list" where
  "getEligibleClassesForDrawing Scan_find st =
     (let totalPossibleStations = length (Station_find_active st) in
      if totalPossibleStations = 0 then Inl (ErrorResponse NoActiveStations 400)
      else Inr (map (\<lambda>classObj.
                  \<lparr>out_id = class_id classObj,
                   out_stationsFound = stationsFoundCount (Scan_find (class_id classObj)),
                   out_totalStations = totalPossibleStations, out_isEligible = True\<rparr>)
                (filter (\<lambda>classObj. stationsFoundCount (Scan_find (class_id classObj))
                                        \<ge> totalPossibleStations)
                        (Class_find_active st))))"

section \<open>Vocabulary of the properties\<close>

text \<open>
  What can happen to the store between two looks at a class: a call of \<open>recordScan\<close>, or
  an administrator changing the station collection (activating, deactivating, adding or
  removing stations).
\<close>

datatype event = Scanned scan_request clock | StationsChanged "station list"

fun after_event :: "store \<Rightarrow> event \<Rightarrow> store" where
  "after_event st (Scanned req clk) = snd (recordScan st req clk)"
| "after_event st (StationsChanged ss) = st\<lparr>station_docs := ss\<rparr>"

text \<open>
  The latch between a class document and a later version of it: the same class, and
  once completed it stays completed with the same \<open>completedAt\<close>.
\<close>

definition latch :: "class_doc \<Rightarrow> class_doc \<Rightarrow> bool" where
  "latch c c' =
     (class_id c' = class_id c \<and>
      (isCompleted c \<longrightarrow> isCompleted c' \<and> completedAt c' = completedAt c))"

text \<open>
  The (class, station) pairs of the Scan collection, one per document: the key of the
  unique index of models/Scan.js.
\<close>

definition scan_pairs :: "store \<Rightarrow> (oid \<times> oid) list" where
  "scan_pairs st = map (\<lambda>x. (classId x, stationId x)) (scan_docs st)"

text \<open>
  A class is eligible when the number of distinct station ids among the Scans of the
  class is at least the number of active stations; the eligible classes of a store are
  the eligible active ones, in the store's order.
\<close>

definition eligible :: "scan_query \<Rightarrow> nat \<Rightarrow> class_doc \<Rightarrow> bool" where
  "eligible Scan_find n c = (n \<le> card (station ` set (Scan_find (class_id c))))"

definition eligible_classes :: "scan_query \<Rightarrow> store \<Rightarrow> class_doc list" where
  "eligible_classes Scan_find st =
     filter (eligible Scan_find (Station_count_active st)) (Class_find_active st)"

text \<open>A winner count that passes the first check of \<open>runDrawing\<close>: present and positive.\<close>

definition valid_count :: "run_request \<Rightarrow> bool" where
  "valid_count req =
     (case map_option fl (numberOfWinners req) of None \<Rightarrow> False | Some n \<Rightarrow> 0 < n)"







section \<open>Concrete stores and requests\<close>

text \<open>
  A class that completed the hunt when station 1 was the only active one; station 2 is
  activated afterwards and the class scans it.
\<close>

definition done_class :: class_doc where
  "done_class = \<lparr>class_id = 5, teacher_id = 9, class_isActive = True, registeredAt = Some 0,
     stationsScanned = [1], isCompleted = True, lastScanAt = Some 100, completedAt = Some 100\<rparr>"

definition st_done :: store where
  "st_done = \<lparr>station_docs = [\<lparr>station_id = 1, station_isActive = True\<rparr>],
     class_docs = [done_class],
     scan_docs = [\<lparr>classId = 5, stationId = 1, scannedAt = 100\<rparr>], drawing_docs = []\<rparr>"

definition evs_done :: "event list" where
  "evs_done =
     [StationsChanged [\<lparr>station_id = 1, station_isActive = True\<rparr>,
                       \<lparr>station_id = 2, station_isActive = True\<rparr>],
      Scanned \<lparr>req_classId = Some 5, req_stationQRCode = Some 2\<rparr>
              \<lparr>now_scannedAt = 200, now_lastScanAt = 201, now_completedAt = 202\<rparr>]"

text \<open>
  A class that has not scanned anything, two active stations, and the class scanning
  station 1 twice.
\<close>

definition fresh_class :: class_doc where
  "fresh_class = \<lparr>class_id = 5, teacher_id = 9, class_isActive = True, registeredAt = Some 0,
     stationsScanned = [], isCompleted = False, lastScanAt = None, completedAt = None\<rparr>"

definition st_fresh :: store where
  "st_fresh = \<lparr>station_docs = [\<lparr>station_id = 1, station_isActive = True\<rparr>,
                               \<lparr>station_id = 2, station_isActive = True\<rparr>],
     class_docs = [fresh_class], scan_docs = [], drawing_docs = []\<rparr>"

definition st_once :: store where
  "st_once = st_fresh\<lparr>
     class_docs := [fresh_class\<lparr>stationsScanned := [1], lastScanAt := Some 101\<rparr>],
     scan_docs := [\<lparr>classId = 5, stationId = 1, scannedAt = 100\<rparr>]\<rparr>"

definition st_twice :: store where
  "st_twice = st_once\<lparr>
     class_docs := [fresh_class\<lparr>stationsScanned := [1], lastScanAt := Some 201\<rparr>]\<rparr>"

definition scan_1 :: scan_request where
  "scan_1 = \<lparr>req_classId = Some 5, req_stationQRCode = Some 1\<rparr>"

definition clk_100 :: clock where
  "clk_100 = \<lparr>now_scannedAt = 100, now_lastScanAt = 101, now_completedAt = 102\<rparr>"

definition clk_200 :: clock where
  "clk_200 = \<lparr>now_scannedAt = 200, now_lastScanAt = 201, now_completedAt = 202\<rparr>"

text \<open>
  Three active stations and three active classes, and an answer to the drawing
  controller's query (\<open>q_draw\<close>) in which class 7 has scanned stations 1 and 2, class 8 all
  three over five minutes, class 9 all three in the same millisecond. Drawing 1 is new,
  drawing 2 was created with class 7 already in its \<open>eligibleClasses\<close>, drawing 3 is
  completed.
\<close>

definition class_of :: "oid \<Rightarrow> class_doc" where
  "class_of i = \<lparr>class_id = i, teacher_id = 9, class_isActive = True, registeredAt = Some 0,
     stationsScanned = [], isCompleted = False, lastScanAt = None, completedAt = None\<rparr>"

definition drawing_of :: "oid \<Rightarrow> oid list \<Rightarrow> drawing_status \<Rightarrow> drawing" where
  "drawing_of i listed s = \<lparr>drawing_id = i, eligibleClasses = listed, winners = [],
     weightingFactors = \<lparr>completionTime = Some 1, stationsFound = Some 1\<rparr>, status = s\<rparr>"

definition st_draw :: store where
  "st_draw = \<lparr>station_docs = [\<lparr>station_id = 1, station_isActive = True\<rparr>,
                              \<lparr>station_id = 2, station_isActive = True\<rparr>,
                              \<lparr>station_id = 3, station_isActive = True\<rparr>],
     class_docs = [class_of 7, class_of 8, class_of 9], scan_docs = [],
     drawing_docs = [drawing_of 1 [] Pending, drawing_of 2 [7] Pending,
                     drawing_of 3 [8] Completed]\<rparr>"

definition q_draw :: scan_query where
  "q_draw c =
     (if c = 7 then [\<lparr>station = 1, scannedAt' = 0\<rparr>, \<lparr>station = 2, scannedAt' = 60000\<rparr>]
      else if c = 8 then [\<lparr>station = 1, scannedAt' = 0\<rparr>, \<lparr>station = 2, scannedAt' = 60000\<rparr>,
                          \<lparr>station = 3, scannedAt' = 300000\<rparr>]
      else if c = 9 then [\<lparr>station = 3, scannedAt' = 0\<rparr>, \<lparr>station = 2, scannedAt' = 0\<rparr>,
                          \<lparr>station = 1, scannedAt' = 0\<rparr>]
      else [])"

definition rnd_half :: "nat \<Rightarrow> rat" where
  "rnd_half k = 1 / 2"

definition run_of :: "oid \<Rightarrow> rat option \<Rightarrow> run_request" where
  "run_of i n = \<lparr>params_id = i, numberOfWinners = n, prizeDescription = None\<rparr>"

definition winner_of :: "oid \<Rightarrow> winner" where
  "winner_of i = \<lparr>winner_class = i, prize = ''Scavenger Hunt Prize'', notified = False\<rparr>"

definition drawn_1 :: drawing where
  "drawn_1 = (drawing_of 1 [8, 9] Completed)\<lparr>winners := [winner_of 8, winner_of 9]\<rparr>"


definition st_late :: store where
  "st_late = \<lparr>station_docs = [\<lparr>station_id = 1, station_isActive = True\<rparr>,
                              \<lparr>station_id = 2, station_isActive = True\<rparr>,
                              \<lparr>station_id = 3, station_isActive = False\<rparr>],
     class_docs = [class_of 7], scan_docs = [], drawing_docs = []\<rparr>"



text \<open>
  Seven stations scanned a minute apart with the factors 0.35 a station and 0.05 for the
  time; and an answer to the query with a scan of the active station 1 and of the
  deactivated station 3 of \<open>st_late\<close>.
\<close>

definition scans_seven :: "scan_view list" where
  "scans_seven = map (\<lambda>s. \<lparr>station = s, scannedAt' = 60000 * int s\<rparr>) [1..<8]"

definition factors_fine :: weighting where
  "factors_fine = \<lparr>completionTime = Some (5 / 100), stationsFound = Some (35 / 100)\<rparr>"

definition scans_mixed :: "scan_view list" where
  "scans_mixed = [\<lparr>station = 1, scannedAt' = 0\<rparr>, \<lparr>station = 3, scannedAt' = 60000\<rparr>]"

text \<open>
  The scenario of the progress query: two active stations, a class registered at 09:00
  (32400000 ms after midnight) that scans station 1 at 10:00 and station 2 at 10:05, and
  its teacher asking for the progress. Drawing 1 is new. \<open>st_found\<close> is the store after the
  two scans.
\<close>

definition hunt_class :: class_doc where
  "hunt_class = \<lparr>class_id = 5, teacher_id = 9, class_isActive = True,
     registeredAt = Some 32400000, stationsScanned = [], isCompleted = False,
     lastScanAt = None, completedAt = None\<rparr>"

definition st_hunt :: store where
  "st_hunt = \<lparr>station_docs = [\<lparr>station_id = 1, station_isActive = True\<rparr>,
                              \<lparr>station_id = 2, station_isActive = True\<rparr>],
     class_docs = [hunt_class], scan_docs = [], drawing_docs = [drawing_of 1 [] Pending]\<rparr>"

definition at_1000 :: clock where
  "at_1000 = \<lparr>now_scannedAt = 36000000, now_lastScanAt = 36000000, now_completedAt = 36000000\<rparr>"

definition at_1005 :: clock where
  "at_1005 = \<lparr>now_scannedAt = 36300000, now_lastScanAt = 36300000, now_completedAt = 36300000\<rparr>"

definition scan_of :: "oid \<Rightarrow> oid \<Rightarrow> scan_request" where
  "scan_of c s = \<lparr>req_classId = Some c, req_stationQRCode = Some s\<rparr>"

definition teacher_9 :: user where
  "teacher_9 = \<lparr>user_id = 9, user_role = ''teacher''\<rparr>"

definition st_found :: store where
  "st_found =
     snd (recordScan (snd (recordScan st_hunt (scan_of 5 1) at_1000)) (scan_of 5 2) at_1005)"

text \<open>The store of the three drawings with every station deactivated.\<close>

definition st_closed :: store where
  "st_closed = st_draw\<lparr>station_docs := [\<lparr>station_id = 1, station_isActive = False\<rparr>,
                                          \<lparr>station_id = 2, station_isActive = False\<rparr>,
                                          \<lparr>station_id = 3, station_isActive = False\<rparr>]\<rparr>"

section \<open>Properties of the numbers\<close>

lemma fl_0: "fl 0 = 0"
  by (simp add: fl_def)

lemma fl_1: "fl 1 = 1"
  by code_simp

lemma fl_5: "fl 5 = 5"
  by code_simp

lemma fl_minus_2: "fl (- 2) = - 2"
  by code_simp

lemma fl_half: "fl (1 / 2) = 1 / 2"
  by code_simp

lemma fl_3_halves: "fl (3 / 2) = 3 / 2"
  by code_simp

lemmas fl_numerals = fl_0 fl_1 fl_5 fl_minus_2 fl_half fl_3_halves

text \<open>
  The rounding at work, beside the exact value: 23 of 40 stations are 57 percent, and
  the random number nearest to 2/3 with \<open>i + 1 = 3\<close> gives the index 2.
\<close>

lemma percentage_23_of_40:
  "round (fl (fl (23 / 40) * 100)) = 57 \<and> round (23 / 40 * 100 :: rat) = 58"
  by code_simp

lemma random_index_rounds_up:
  "nat \<lfloor>fl (fl (2 / 3) * 3)\<rfloor> = 2 \<and> nat \<lfloor>fl (2 / 3) * 3 :: rat\<rfloor> = 1"
  by code_simp

subsection \<open>The rounding error\<close>








section \<open>Properties of recordScan\<close>

subsection \<open>Saving a class document\<close>

lemma find_class_id: "find (\<lambda>d. class_id d = i) ds = Some d \<Longrightarrow> class_id d = i"
  by (induction ds) (auto split: if_splits)

lemma replace_class_rel:
  assumes "find (\<lambda>d. class_id d = i) ds = Some d" "class_id c' = i" "P d c'" "\<And>x. P x x"
  shows "list_all2 P ds (replace_class c' ds)"
  using assms
proof (induction ds)
  case Nil
  then show ?case by simp
next
  case (Cons e es)
  show ?case
  proof (cases "class_id e = i")
    case True
    with Cons.prems have "e = d" by simp
    with True Cons.prems show ?thesis by (simp add: list_all2_refl)
  next
    case False
    with Cons show ?thesis by simp
  qed
qed

subsection \<open>The completion latch\<close>

lemma latch_refl: "latch c c"
  by (simp add: latch_def)

lemma latch_trans: "latch a b \<Longrightarrow> latch b c \<Longrightarrow> latch a c"
  by (simp add: latch_def)

lemma list_all2_latch_trans:
  "list_all2 latch xs ys \<Longrightarrow> list_all2 latch ys zs \<Longrightarrow> list_all2 latch xs zs"
  by (rule list_all2_trans [where ?P1.0 = latch and ?P2.0 = latch]) (auto intro: latch_trans)

lemma existing_scan_branch_latch:
  assumes "Class_findById st cid = Some c"
  shows "list_all2 latch (class_docs st) (class_docs (snd (existing_scan_branch st stn c clk)))"
proof -
  have f: "find (\<lambda>d. class_id d = cid) (class_docs st) = Some c"
    using assms by (simp add: Class_findById_def)
  have r: "list_all2 latch (class_docs st)
             (replace_class (c\<lparr>lastScanAt := Some (now_lastScanAt clk)\<rparr>) (class_docs st))"
    by (rule replace_class_rel [where P = latch and d = c, OF f])
       (simp_all add: find_class_id [OF f] latch_def)
  show ?thesis
    using r
    by (simp add: existing_scan_branch_def Let_def Class_save_def list_all2_refl latch_refl)
qed

lemma new_scan_branch_latch:
  assumes "Class_findById st cid = Some c"
  shows "list_all2 latch (class_docs st) (class_docs (snd (new_scan_branch st stn c clk)))"
proof -
  have f: "find (\<lambda>d. class_id d = cid) (class_docs st) = Some c"
    using assms by (simp add: Class_findById_def)
  define c3 where "c3 = check_completion
      (Scan_create \<lparr>classId = class_id c, stationId = station_id stn,
                    scannedAt = now_scannedAt clk\<rparr> st) clk
      ((if station_id stn \<notin> set (stationsScanned c)
        then c\<lparr>stationsScanned := stationsScanned c @ [station_id stn]\<rparr> else c)
       \<lparr>lastScanAt := Some (now_lastScanAt clk)\<rparr>)"
  have l: "latch c c3"
    unfolding c3_def by (simp add: latch_def check_completion_def Let_def)
  have r: "list_all2 latch (class_docs st) (replace_class c3 (class_docs st))"
    by (rule replace_class_rel [where P = latch and d = c, OF f])
       (use l find_class_id [OF f] in \<open>simp_all add: latch_def\<close>)
  show ?thesis
    using r by (simp add: new_scan_branch_def Let_def Class_save_def Scan_create_def c3_def)
qed

lemma recordScan_latch:
  "list_all2 latch (class_docs st) (class_docs (snd (recordScan st req clk)))"
proof -
  have same: "list_all2 latch (class_docs st) (class_docs st)"
    by (simp add: list_all2_refl latch_refl)
  show ?thesis
    unfolding recordScan_def
    by (auto simp: same existing_scan_branch_latch new_scan_branch_latch
        split: option.splits prod.splits)
qed

lemma after_event_latch: "list_all2 latch (class_docs st) (class_docs (after_event st ev))"
  by (cases ev) (simp_all add: recordScan_latch list_all2_refl latch_refl)

text \<open>
  C8. Completion is a one-way latch. Over any sequence of calls of \<open>recordScan\<close>,
  interleaved with any changes of the station collection (so also after new stations are
  activated), every class document keeps its position and id, and a class whose
  \<open>isCompleted\<close> is true keeps \<open>isCompleted = true\<close> and the same \<open>completedAt\<close>. A single
  call is the sequence of one event.
\<close>

theorem recordScan_completion_latch:
  "list_all2 latch (class_docs st) (class_docs (foldl after_event st evs))"
proof (induction evs arbitrary: st)
  case Nil
  show ?case by (simp add: list_all2_refl latch_refl)
next
  case (Cons ev evs)
  have "list_all2 latch (class_docs st) (class_docs (after_event st ev))"
    by (rule after_event_latch)
  moreover have "list_all2 latch (class_docs (after_event st ev))
      (class_docs (foldl after_event (after_event st ev) evs))"
    by (rule Cons.IH)
  ultimately show ?case by (simp add: list_all2_latch_trans)
qed

text \<open>
  The latch at work: the completed class scans the newly activated station 2; it is the
  only class afterwards, still completed, with the completion time it had.
\<close>

theorem recordScan_completion_latch_witness:
  "isCompleted done_class \<and>
   (\<exists>c'. class_docs (foldl after_event st_done evs_done) = [c'] \<and> class_id c' = 5 \<and>
      isCompleted c' \<and> completedAt c' = Some 100)"
proof -
  have a: "class_docs st_done = [done_class]"
    by (simp add: st_done_def)
  have "list_all2 latch [done_class] (class_docs (foldl after_event st_done evs_done))"
    using recordScan_completion_latch [of st_done evs_done] unfolding a .
  then obtain c' where c': "class_docs (foldl after_event st_done evs_done) = [c']"
    and l: "latch done_class c'"
    by (auto simp: list_all2_Cons1)
  have d: "isCompleted done_class" "completedAt done_class = Some 100" "class_id done_class = 5"
    by (simp_all add: done_class_def)
  from l d have "class_id c' = 5 \<and> isCompleted c' \<and> completedAt c' = Some 100"
    by (simp add: latch_def)
  with c' d show ?thesis by blast
qed

subsection \<open>Evaluation on concrete stores\<close>

lemmas recordScan_eval =
  recordScan_def Station_findById_def Class_findById_def Scan_findOne_def new_scan_branch_def
  existing_scan_branch_def check_completion_def Class_save_def Scan_create_def
  Station_count_active_def Station_find_active_def Let_def

lemma recordScan_st_fresh:
  "recordScan st_fresh scan_1 clk_100 =
     (Inr \<lparr>res_status = 201, res_existing = False, res_station = 1\<rparr>, st_once)"
  by (simp add: recordScan_eval st_fresh_def st_once_def fresh_class_def scan_1_def clk_100_def)

lemma recordScan_st_once:
  "recordScan st_once scan_1 clk_200 =
     (Inr \<lparr>res_status = 200, res_existing = True, res_station = 1\<rparr>, st_twice)"
  by (simp add: recordScan_eval st_fresh_def st_once_def st_twice_def fresh_class_def scan_1_def
      clk_200_def)

subsection \<open>The repeat scan\<close>

lemma replace_class_same:
  "find (\<lambda>d. class_id d = i) ds = Some c \<Longrightarrow> replace_class c ds = ds"
proof (induction ds)
  case Nil
  then show ?case by simp
next
  case (Cons e es)
  show ?case
  proof (cases "class_id e = i")
    case True
    with Cons.prems show ?thesis by simp
  next
    case False
    with Cons.prems have f: "find (\<lambda>d. class_id d = i) es = Some c" by simp
    with False have "class_id e \<noteq> class_id c" using find_class_id [OF f] by simp
    with Cons.IH [OF f] show ?thesis by simp
  qed
qed

lemma find_replace_class:
  "find (\<lambda>d. class_id d = i) ds = Some c \<Longrightarrow> class_id c' = i \<Longrightarrow>
   find (\<lambda>d. class_id d = i) (replace_class c' ds) = Some c'"
  by (induction ds) (auto split: if_splits)

lemma map_replace_class:
  "find (\<lambda>d. class_id d = i) ds = Some c \<Longrightarrow> class_id c' = i \<Longrightarrow> f c' = f c \<Longrightarrow>
   map f (replace_class c' ds) = map f ds"
  by (induction ds) (auto split: if_splits)

lemma existing_scan_branch_store:
  assumes "Class_findById st cid = Some c"
  shows "snd (existing_scan_branch st stn c clk)
           = Class_save (c\<lparr>lastScanAt := Some (now_lastScanAt clk)\<rparr>) st"
proof (cases "lastScanAt c = None \<or> lastScanAt c = Some 0 \<or> lastScanAt c \<noteq> Some (now_lastScanAt clk)")
  case True
  then show ?thesis by (auto simp add: existing_scan_branch_def Let_def)
next
  case False
  then have same: "c\<lparr>lastScanAt := Some (now_lastScanAt clk)\<rparr> = c" by simp
  have "replace_class c (class_docs st) = class_docs st"
    using assms by (simp add: Class_findById_def replace_class_same)
  then have "Class_save (c\<lparr>lastScanAt := Some (now_lastScanAt clk)\<rparr>) st = st"
    unfolding same by (simp add: Class_save_def)
  moreover have "lastScanAt c = Some (now_lastScanAt clk)" "now_lastScanAt clk \<noteq> 0"
    using False by auto
  then have "snd (existing_scan_branch st stn c clk) = st"
    by (simp add: existing_scan_branch_def Let_def)
  ultimately show ?thesis by simp
qed

lemma recordScan_repeat:
  assumes "req_classId req = Some cid" "req_stationQRCode req = Some sid"
    and "Station_findById st sid = Some stn" "station_isActive stn"
    and "Class_findById st cid = Some c" "class_isActive c"
    and "Scan_findOne st cid (station_id stn) = Some x"
  shows "recordScan st req clk =
           (Inr \<lparr>res_status = 200, res_existing = True, res_station = station_id stn\<rparr>,
            Class_save (c\<lparr>lastScanAt := Some (now_lastScanAt clk)\<rparr>) st)"
proof -
  have "recordScan st req clk = existing_scan_branch st stn c clk"
    using assms by (simp add: recordScan_def)
  moreover have "fst (existing_scan_branch st stn c clk) =
      Inr \<lparr>res_status = 200, res_existing = True, res_station = station_id stn\<rparr>"
    by (simp add: existing_scan_branch_def Let_def)
  ultimately show ?thesis
    using existing_scan_branch_store [OF assms(5), of stn clk] by (metis prod.collapse)
qed


text \<open>
  C10. A repeat scan still writes the class document. When the station and the class are
  found and active and a Scan of the pair exists, \<open>recordScan\<close> answers 200 with
  \<open>existing: true\<close>, and the store afterwards is the store before with the class document
  saved with \<open>lastScanAt\<close> set to the current time: the document found under the class id
  is the old one with that one path changed, so \<open>stationsScanned\<close>, \<open>isCompleted\<close> and
  \<open>completedAt\<close> are as before. (When the old \<open>lastScanAt\<close> already is the current time the
  controller skips the save; the stored document is the same.)
\<close>

theorem recordScan_repeat_scan_touches_lastScanAt:
  assumes "req_classId req = Some cid" "req_stationQRCode req = Some sid"
    and "Station_findById st sid = Some stn" "station_isActive stn"
    and "Class_findById st cid = Some c" "class_isActive c"
    and "Scan_findOne st cid (station_id stn) = Some x"
  shows "fst (recordScan st req clk) =
           Inr \<lparr>res_status = 200, res_existing = True, res_station = station_id stn\<rparr>
       \<and> Class_findById (snd (recordScan st req clk)) cid
           = Some (c\<lparr>lastScanAt := Some (now_lastScanAt clk)\<rparr>)
       \<and> snd (recordScan st req clk)
           = Class_save (c\<lparr>lastScanAt := Some (now_lastScanAt clk)\<rparr>) st"
proof -
  have f: "find (\<lambda>d. class_id d = cid) (class_docs st) = Some c"
    using assms(5) by (simp add: Class_findById_def)
  have "Class_findById (Class_save (c\<lparr>lastScanAt := Some (now_lastScanAt clk)\<rparr>) st) cid
      = Some (c\<lparr>lastScanAt := Some (now_lastScanAt clk)\<rparr>)"
    using find_replace_class [OF f, of "c\<lparr>lastScanAt := Some (now_lastScanAt clk)\<rparr>"] find_class_id [OF f]
    by (simp add: Class_findById_def Class_save_def)
  then show ?thesis
    by (simp add: recordScan_repeat [OF assms])
qed

theorem recordScan_repeat_scan_touches_lastScanAt_witness:
  "req_classId scan_1 = Some 5 \<and> req_stationQRCode scan_1 = Some 1
   \<and> Station_findById st_once 1 = Some \<lparr>station_id = 1, station_isActive = True\<rparr>
   \<and> Class_findById st_once 5 = Some (fresh_class\<lparr>stationsScanned := [1], lastScanAt := Some 101\<rparr>)
   \<and> Scan_findOne st_once 5 1 = Some \<lparr>classId = 5, stationId = 1, scannedAt = 100\<rparr>
   \<and> fst (recordScan st_once scan_1 clk_200)
        = Inr \<lparr>res_status = 200, res_existing = True, res_station = 1\<rparr>
   \<and> Class_findById (snd (recordScan st_once scan_1 clk_200)) 5
        = Some (fresh_class\<lparr>stationsScanned := [1], lastScanAt := Some 201\<rparr>)"
proof -
  let ?stn = "\<lparr>station_id = 1, station_isActive = True\<rparr>"
  let ?c = "fresh_class\<lparr>stationsScanned := [1], lastScanAt := Some 101\<rparr>"
  let ?x = "\<lparr>classId = 5, stationId = 1, scannedAt = 100\<rparr>"
  have h: "req_classId scan_1 = Some 5" "req_stationQRCode scan_1 = Some 1"
    "Station_findById st_once 1 = Some ?stn" "station_isActive ?stn"
    "Class_findById st_once 5 = Some ?c" "class_isActive ?c"
    "Scan_findOne st_once 5 (station_id ?stn) = Some ?x"
    by (simp_all add: scan_1_def st_once_def st_fresh_def fresh_class_def Station_findById_def
        Class_findById_def Scan_findOne_def)
  note r = recordScan_repeat_scan_touches_lastScanAt [OF h, of clk_200]
  have t: "now_lastScanAt clk_200 = 201"
    by (simp add: clk_200_def)
  from r [THEN conjunct1] r [THEN conjunct2, THEN conjunct1] h
  show ?thesis unfolding t by simp
qed

subsection \<open>Scanning the same station twice\<close>

lemma find_snoc:
  "find P xs = None \<Longrightarrow> P x \<Longrightarrow> find P (xs @ [x]) = Some x"
  by (induction xs) (auto split: if_splits)

lemma find_in_set: "find P xs = Some x \<Longrightarrow> x \<in> set xs \<and> P x"
  by (induction xs) (auto split: if_splits)

lemma new_scan_branch_after:
  assumes c: "Class_findById st cid = Some c" and a: "class_isActive c"
    and n: "Scan_findOne st cid (station_id stn) = None"
  shows "\<exists>c1. fst (new_scan_branch st stn c clk)
               = Inr \<lparr>res_status = 201, res_existing = False, res_station = station_id stn\<rparr>
           \<and> station_docs (snd (new_scan_branch st stn c clk)) = station_docs st
           \<and> Class_findById (snd (new_scan_branch st stn c clk)) cid = Some c1
           \<and> class_isActive c1
           \<and> Scan_findOne (snd (new_scan_branch st stn c clk)) cid (station_id stn) \<noteq> None
           \<and> scan_pairs (snd (new_scan_branch st stn c clk)) = scan_pairs st @ [(cid, station_id stn)]"
proof -
  have f: "find (\<lambda>d. class_id d = cid) (class_docs st) = Some c"
    using c by (simp add: Class_findById_def)
  have cid: "class_id c = cid" by (rule find_class_id [OF f])
  define x where "x = \<lparr>classId = class_id c, stationId = station_id stn, scannedAt = now_scannedAt clk\<rparr>"
  define c3 where "c3 = check_completion (Scan_create x st) clk
      ((if station_id stn \<notin> set (stationsScanned c)
        then c\<lparr>stationsScanned := stationsScanned c @ [station_id stn]\<rparr> else c)
       \<lparr>lastScanAt := Some (now_lastScanAt clk)\<rparr>)"
  have c3: "class_id c3 = cid" "class_isActive c3"
    unfolding c3_def using cid a by (simp_all add: check_completion_def Let_def)
  have s: "snd (new_scan_branch st stn c clk) = Class_save c3 (Scan_create x st)"
    by (simp add: new_scan_branch_def Let_def c3_def x_def)
  have 1: "Class_findById (Class_save c3 (Scan_create x st)) cid = Some c3"
    using find_replace_class [OF f c3(1)]
    by (simp add: Class_findById_def Class_save_def Scan_create_def)
  have "find (\<lambda>y. classId y = cid \<and> stationId y = station_id stn) (scan_docs st @ [x]) = Some x"
    using n cid by (intro find_snoc) (simp_all add: Scan_findOne_def x_def)
  then have 2: "Scan_findOne (Class_save c3 (Scan_create x st)) cid (station_id stn) = Some x"
    by (simp add: Scan_findOne_def Class_save_def Scan_create_def)
  have 3: "scan_pairs (Class_save c3 (Scan_create x st)) = scan_pairs st @ [(cid, station_id stn)]"
    using cid by (simp add: scan_pairs_def Class_save_def Scan_create_def x_def)
  have 4: "station_docs (Class_save c3 (Scan_create x st)) = station_docs st"
    by (simp add: Class_save_def Scan_create_def)
  have 5: "fst (new_scan_branch st stn c clk)
       = Inr \<lparr>res_status = 201, res_existing = False, res_station = station_id stn\<rparr>"
    by (simp add: new_scan_branch_def Let_def)
  show ?thesis
    unfolding s using 1 2 3 4 5 c3(2) s by auto
qed

lemma existing_scan_branch_after:
  assumes c: "Class_findById st cid = Some c" and a: "class_isActive c"
    and n: "Scan_findOne st cid (station_id stn) = Some x"
  shows "\<exists>c1. fst (existing_scan_branch st stn c clk)
               = Inr \<lparr>res_status = 200, res_existing = True, res_station = station_id stn\<rparr>
           \<and> station_docs (snd (existing_scan_branch st stn c clk)) = station_docs st
           \<and> Class_findById (snd (existing_scan_branch st stn c clk)) cid = Some c1
           \<and> class_isActive c1
           \<and> Scan_findOne (snd (existing_scan_branch st stn c clk)) cid (station_id stn) \<noteq> None
           \<and> scan_docs (snd (existing_scan_branch st stn c clk)) = scan_docs st
           \<and> map stationsScanned (class_docs (snd (existing_scan_branch st stn c clk)))
               = map stationsScanned (class_docs st)"
proof -
  have f: "find (\<lambda>d. class_id d = cid) (class_docs st) = Some c"
    using c by (simp add: Class_findById_def)
  have cid: "class_id c = cid" by (rule find_class_id [OF f])
  define c1 where "c1 = c\<lparr>lastScanAt := Some (now_lastScanAt clk)\<rparr>"
  have s: "snd (existing_scan_branch st stn c clk) = Class_save c1 st"
    unfolding c1_def by (rule existing_scan_branch_store [OF c])
  have c1: "class_id c1 = cid" "class_isActive c1" "stationsScanned c1 = stationsScanned c"
    using cid a by (simp_all add: c1_def)
  have 1: "Class_findById (Class_save c1 st) cid = Some c1"
    using find_replace_class [OF f c1(1)] by (simp add: Class_findById_def Class_save_def)
  have 2: "Scan_findOne (Class_save c1 st) cid (station_id stn) = Some x"
    using n by (simp add: Scan_findOne_def Class_save_def)
  have 3: "map stationsScanned (class_docs (Class_save c1 st)) = map stationsScanned (class_docs st)"
    using map_replace_class [OF f c1(1), of stationsScanned] c1(3) by (simp add: Class_save_def)
  have 5: "fst (existing_scan_branch st stn c clk)
       = Inr \<lparr>res_status = 200, res_existing = True, res_station = station_id stn\<rparr>"
    by (simp add: existing_scan_branch_def Let_def)
  show ?thesis
    unfolding s using 1 2 3 5 c1(2) by (auto simp: Class_save_def)
qed

lemma recordScan_cases:
  assumes "recordScan st req clk = (r, st1)"
  obtains (rejected) e where "r = Inl e" "st1 = st" "\<And>clk'. recordScan st req clk' = (Inl e, st)"
  | (accepted) cid sid stn c where
      "req_classId req = Some cid" "req_stationQRCode req = Some sid"
      "Station_findById st sid = Some stn" "station_isActive stn"
      "Class_findById st cid = Some c" "class_isActive c"
      "recordScan st req clk =
         (case Scan_findOne st cid (station_id stn) of
            Some x \<Rightarrow> existing_scan_branch st stn c clk
          | None \<Rightarrow> new_scan_branch st stn c clk)"
  using assms unfolding recordScan_def
  by (auto split: option.splits prod.splits if_splits)

lemma recordScan_then_repeat:
  assumes "recordScan st req clk1 = (Inr ok, st1)"
  shows "\<exists>cid sid stn c1 x. req_classId req = Some cid \<and> req_stationQRCode req = Some sid
     \<and> Station_findById st1 sid = Some stn \<and> station_isActive stn
     \<and> Class_findById st1 cid = Some c1 \<and> class_isActive c1
     \<and> Scan_findOne st1 cid (station_id stn) = Some x \<and> res_station ok = station_id stn"
  using assms
proof (cases rule: recordScan_cases)
  case (rejected e)
  then show ?thesis by simp
next
  case (accepted cid sid stn c)
  show ?thesis
  proof (cases "Scan_findOne st cid (station_id stn)")
    case None
    with accepted(7) assms have b: "new_scan_branch st stn c clk1 = (Inr ok, st1)" by simp
    from new_scan_branch_after [OF accepted(5,6) None, of clk1] b accepted(1-4)
    show ?thesis by (auto simp: Station_findById_def)
  next
    case (Some x)
    with accepted(7) assms have b: "existing_scan_branch st stn c clk1 = (Inr ok, st1)" by simp
    from existing_scan_branch_after [OF accepted(5,6) Some, of clk1] b accepted(1-4)
    show ?thesis by (auto simp: Station_findById_def)
  qed
qed

lemma recordScan_distinct_pairs:
  assumes "distinct (scan_pairs st)"
  shows "distinct (scan_pairs (snd (recordScan st req clk)))"
proof -
  obtain r st1 where rs: "recordScan st req clk = (r, st1)" by (cases "recordScan st req clk")
  then show ?thesis
  proof (cases rule: recordScan_cases)
    case (rejected e)
    with assms rs show ?thesis by simp
  next
    case (accepted cid sid stn c)
    show ?thesis
    proof (cases "Scan_findOne st cid (station_id stn)")
      case None
      then have "(cid, station_id stn) \<notin> set (scan_pairs st)"
        by (auto simp: Scan_findOne_def scan_pairs_def find_None_iff)
      with new_scan_branch_after [OF accepted(5,6) None, of clk] accepted(7) None assms
      show ?thesis by auto
    next
      case (Some x)
      with existing_scan_branch_after [OF accepted(5,6) Some, of clk] accepted(7) assms
      show ?thesis by (auto simp: scan_pairs_def)
    qed
  qed
qed


lemma after_event_distinct_pairs:
  "distinct (scan_pairs st) \<Longrightarrow> distinct (scan_pairs (after_event st ev))"
proof (cases ev)
  case (Scanned req clk)
  assume "distinct (scan_pairs st)"
  with Scanned show ?thesis by (simp add: recordScan_distinct_pairs)
next
  case (StationsChanged ss)
  assume "distinct (scan_pairs st)"
  with StationsChanged show ?thesis by (simp add: scan_pairs_def)
qed

lemma after_events_distinct_pairs:
  "distinct (scan_pairs st) \<Longrightarrow> distinct (scan_pairs (foldl after_event st evs))"
  by (induction evs arbitrary: st) (simp_all add: after_event_distinct_pairs)

text \<open>
  C7. Re-scan is idempotent on the Scan collection. Call \<open>recordScan\<close> twice with the same
  request. The second call creates no Scan and leaves every class's \<open>stationsScanned\<close> as
  the first call left it; when the first call answered with a success, the second
  answers 200 with \<open>existing: true\<close> for the same station (when the first call was
  rejected, the second is rejected the same way). And when no two Scans of the store
  have the same (class, station) pair, none have after the two calls, nor after any
  sequence of calls and changes of the station collection: at most one Scan per pair
  ever exists.
\<close>

theorem recordScan_twice_one_scan:
  assumes "recordScan st req clk1 = (r1, st1)" and "recordScan st1 req clk2 = (r2, st2)"
  shows "scan_docs st2 = scan_docs st1
       \<and> map stationsScanned (class_docs st2) = map stationsScanned (class_docs st1)
       \<and> (case r1 of
            Inl e \<Rightarrow> r2 = Inl e
          | Inr ok \<Rightarrow> r2 = Inr \<lparr>res_status = 200, res_existing = True,
                                res_station = res_station ok\<rparr>)
       \<and> (distinct (scan_pairs st) \<longrightarrow>
            distinct (scan_pairs st2)
            \<and> (\<forall>evs. distinct (scan_pairs (foldl after_event st evs))))"
proof -
  have d: "distinct (scan_pairs st2) \<and> (\<forall>evs. distinct (scan_pairs (foldl after_event st evs)))"
    if "distinct (scan_pairs st)"
  proof -
    have "distinct (scan_pairs st1)"
      using recordScan_distinct_pairs [OF that, of req clk1] assms(1) by simp
    then have "distinct (scan_pairs st2)"
      using recordScan_distinct_pairs [of st1 req clk2] assms(2) by simp
    with that show ?thesis by (simp add: after_events_distinct_pairs)
  qed
  show ?thesis
  proof (cases r1)
    case (Inl e)
    with assms(1) have rs: "recordScan st req clk1 = (Inl e, st1)" by simp
    then have "st1 = st \<and> recordScan st req clk2 = (Inl e, st)"
    proof (cases rule: recordScan_cases)
      case (rejected e')
      then show ?thesis by simp
    next
      case (accepted cid sid stn c)
      with rs show ?thesis
        by (simp add: existing_scan_branch_def new_scan_branch_def Let_def split: option.splits)
    qed
    with assms(2) Inl d show ?thesis by auto
  next
    case (Inr ok)
    with assms(1) have "recordScan st req clk1 = (Inr ok, st1)" by simp
    from recordScan_then_repeat [OF this] obtain cid sid stn c1 x where
      h: "req_classId req = Some cid" "req_stationQRCode req = Some sid"
         "Station_findById st1 sid = Some stn" "station_isActive stn"
         "Class_findById st1 cid = Some c1" "class_isActive c1"
         "Scan_findOne st1 cid (station_id stn) = Some x" "res_station ok = station_id stn"
      by blast
    have "recordScan st1 req clk2 = existing_scan_branch st1 stn c1 clk2"
      using h by (simp add: recordScan_def)
    with existing_scan_branch_after [OF h(5,6,7), of clk2] assms(2) h(8) Inr
    have "scan_docs st2 = scan_docs st1
       \<and> map stationsScanned (class_docs st2) = map stationsScanned (class_docs st1)
       \<and> r2 = Inr \<lparr>res_status = 200, res_existing = True, res_station = res_station ok\<rparr>"
      by auto
    with d Inr show ?thesis by simp
  qed
qed

theorem recordScan_twice_one_scan_witness:
  "distinct (scan_pairs st_fresh)
   \<and> recordScan st_fresh scan_1 clk_100
        = (Inr \<lparr>res_status = 201, res_existing = False, res_station = 1\<rparr>, st_once)
   \<and> recordScan st_once scan_1 clk_200
        = (Inr \<lparr>res_status = 200, res_existing = True, res_station = 1\<rparr>, st_twice)
   \<and> scan_docs st_twice = [\<lparr>classId = 5, stationId = 1, scannedAt = 100\<rparr>]
   \<and> distinct (scan_pairs st_twice)
   \<and> map stationsScanned (class_docs st_twice) = [[1]]"
proof -
  have d: "distinct (scan_pairs st_fresh)"
    by (simp add: scan_pairs_def st_fresh_def)
  from recordScan_twice_one_scan [OF recordScan_st_fresh recordScan_st_once] d
  have "distinct (scan_pairs st_twice)
      \<and> map stationsScanned (class_docs st_twice) = map stationsScanned (class_docs st_once)"
    by simp
  then show ?thesis
    using d recordScan_st_fresh recordScan_st_once
    by (simp add: st_once_def st_twice_def st_fresh_def)
qed

subsection \<open>No active station\<close>

lemma no_active_find:
  assumes "Station_count_active st = 0" "Station_findById st sid = Some stn"
  shows "\<not> station_isActive stn"
proof -
  have "stn \<in> set (station_docs st)"
    using assms(2) by (simp add: Station_findById_def find_in_set)
  moreover have "filter station_isActive (station_docs st) = []"
    using assms(1) by (simp add: Station_count_active_def Station_find_active_def)
  ultimately show ?thesis by (auto simp: filter_empty_conv)
qed

lemma recordScan_no_active_stations:
  assumes "Station_count_active st = 0"
  shows "snd (recordScan st req clk) = st
    \<and> (fst (recordScan st req clk) = Inl (ErrorResponse MissingScanFields 400)
       \<or> fst (recordScan st req clk) = Inl (ErrorResponse StationNotFound 404)
       \<or> fst (recordScan st req clk) = Inl (ErrorResponse StationNotActive 400))"
  using no_active_find [OF assms]
  by (auto simp: recordScan_def split: option.splits)

section \<open>Properties of runDrawing\<close>

subsection \<open>The eligibility pass\<close>

lemma stationsFoundCount_card: "stationsFoundCount scans = card (station ` set scans)"
  by (simp add: stationsFoundCount_def uniqueStationsScanned_def length_remdups_card_conv)

lemma classWeight_ge_1: "1 \<le> classWeight factors tot scans"
  by (simp add: classWeight_def Let_def)

text \<open>
  The weight is computed in doubles: seven stations at 0.35 and the bonus 0.05 give 3
  tickets, where the exact sum 3.5 would round to 4.
\<close>

lemma classWeight_seven_stations:
  "classWeight factors_fine 7 scans_seven = 3
   \<and> round (1 + 7 * (35 / 100) + 5 / 100 :: rat) = 4"
  by code_simp

text \<open>
  Eligibility counts the distinct station ids answered, active or not: a class with a
  scan of the active station 1 and of the deactivated station 3 counts 2, as many as
  there are active stations, and is eligible without a scan of the active station 2.
\<close>

lemma eligible_counts_any_station:
  "map station_id (Station_find_active st_late) = [1, 2]
   \<and> map station scans_mixed = [1, 3]
   \<and> eligible_classes (\<lambda>c. scans_mixed) st_late = [class_of 7]"
  by code_simp

lemma eligibility_pass_pushed:
  "fst (eligibility_pass q factors tot cs) = map class_id (filter (eligible q tot) cs)"
  by (induction cs) (auto simp: Let_def eligible_def stationsFoundCount_card split: prod.splits)

lemma eligibility_pass_entries:
  "snd (eligibility_pass q factors tot cs) =
     concat (map (\<lambda>c. replicate (nat (classWeight factors tot (q (class_id c)))) (class_id c))
                 (filter (eligible q tot) cs))"
  by (induction cs) (auto simp: Let_def eligible_def stationsFoundCount_card split: prod.splits)

lemma eligibility_pass_set:
  "set (snd (eligibility_pass q factors tot cs)) = set (fst (eligibility_pass q factors tot cs))"
proof (induction cs)
  case Nil
  show ?case by simp
next
  case (Cons c cs)
  have "0 < nat (classWeight factors tot (q (class_id c)))"
    using classWeight_ge_1 [of factors tot "q (class_id c)"] by simp
  then have "set (replicate (nat (classWeight factors tot (q (class_id c)))) (class_id c)) = {class_id c}"
    by simp
  with Cons show ?case
    by (auto simp add: Let_def split: prod.splits)
qed

lemma eligibility_pass_empty:
  "snd (eligibility_pass q factors tot cs) = [] \<longleftrightarrow> filter (eligible q tot) cs = []"
  using eligibility_pass_set [of q factors tot cs]
  by (metis eligibility_pass_pushed map_is_Nil_conv set_empty)

lemma runDrawing_invalid:
  "\<not> valid_count req \<Longrightarrow> runDrawing q rnd st req = (Inl (ErrorResponse InvalidWinners 400), st)"
  by (auto simp: runDrawing_def valid_count_def split: option.splits)

lemma runDrawing_not_found:
  "valid_count req \<Longrightarrow> Drawing_findById st (params_id req) = None \<Longrightarrow>
   runDrawing q rnd st req = (Inl (ErrorResponse DrawingNotFound 404), st)"
  by (auto simp: runDrawing_def valid_count_def split: option.splits)

lemma runDrawing_completed:
  "valid_count req \<Longrightarrow> Drawing_findById st (params_id req) = Some d \<Longrightarrow> status d = Completed \<Longrightarrow>
   runDrawing q rnd st req = (Inl (ErrorResponse DrawingCompleted 409), st)"
  by (auto simp: runDrawing_def valid_count_def split: option.splits)

lemma runDrawing_no_stations:
  "valid_count req \<Longrightarrow> Drawing_findById st (params_id req) = Some d \<Longrightarrow> status d = Pending \<Longrightarrow>
   Station_count_active st = 0 \<Longrightarrow>
   runDrawing q rnd st req = (Inl (ErrorResponse NoActiveStations 400), st)"
  by (auto simp: runDrawing_def valid_count_def Station_count_active_def split: option.splits)

lemma runDrawing_no_eligible:
  assumes "valid_count req" "Drawing_findById st (params_id req) = Some d" "status d = Pending"
    "0 < Station_count_active st" "eligible_classes q st = []"
  shows "runDrawing q rnd st req = (Inl (ErrorResponse NoEligibleClasses 400), st)"
proof -
  have "snd (eligibility_pass q (weightingFactors d) (Station_count_active st) (Class_find_active st)) = []"
    using assms(5) by (simp add: eligibility_pass_empty eligible_classes_def)
  then show ?thesis
    using assms(1-4)
    by (auto simp: runDrawing_def valid_count_def Station_count_active_def Let_def
        split: option.splits prod.splits)
qed

lemma runDrawing_success:
  assumes "numberOfWinners req = Some n" "0 < fl n" "Drawing_findById st (params_id req) = Some d" "status d = Pending"
    "0 < Station_count_active st" "eligible_classes q st \<noteq> []"
  shows "\<exists>pushed entries d'. eligibility_pass q (weightingFactors d) (Station_count_active st) (Class_find_active st) = (pushed, entries)
     \<and> d' = d\<lparr>eligibleClasses := eligibleClasses d @ pushed,
          winners := pick_winners (fl n) (prize_text (prizeDescription req))
                       (shuffle rnd 0 (length entries - 1) entries) [] {},
          status := Completed\<rparr>
     \<and> runDrawing q rnd st req = (Inr d', Drawing_save d' st)"
proof -
  obtain pushed entries where e: "eligibility_pass q (weightingFactors d) (Station_count_active st) (Class_find_active st) = (pushed, entries)"
    by (cases "eligibility_pass q (weightingFactors d) (Station_count_active st) (Class_find_active st)")
  have "entries \<noteq> []"
    using assms(6) e eligibility_pass_empty [of q "weightingFactors d" "Station_count_active st" "Class_find_active st"]
    by (simp add: eligible_classes_def)
  with e show ?thesis
    using assms(1-5)
    by (simp add: runDrawing_def Station_count_active_def Let_def)
qed

subsection \<open>Shuffle and selection\<close>





subsection \<open>A successful run\<close>

lemma status_not_completed: "status d \<noteq> Completed \<Longrightarrow> status d = Pending"
  by (cases "status d") simp_all

lemma runDrawing_Inr:
  assumes "runDrawing q rnd st req = (Inr d', st')"
  obtains n d where "numberOfWinners req = Some n" "0 < fl n"
    "Drawing_findById st (params_id req) = Some d" "status d = Pending"
    "0 < Station_count_active st" "eligible_classes q st \<noteq> []"
proof -
  from assms obtain n where n: "numberOfWinners req = Some n" "0 < fl n"
    by (auto simp: runDrawing_def split: option.splits if_splits)
  then have v: "valid_count req" by (simp add: valid_count_def)
  from assms v obtain d where d: "Drawing_findById st (params_id req) = Some d"
    using runDrawing_not_found [of req st q rnd] by (cases "Drawing_findById st (params_id req)") auto
  from assms v d have p: "status d = Pending"
    using runDrawing_completed [of req st d q rnd] status_not_completed [of d] by auto
  from assms v d p have s: "0 < Station_count_active st"
    using runDrawing_no_stations [of req st d q rnd] by auto
  from assms v d p s have "eligible_classes q st \<noteq> []"
    using runDrawing_no_eligible [of req st d q rnd] by auto
  with n d p s show ?thesis using that by blast
qed



subsection \<open>Evaluation on the concrete store\<close>



lemma run_1_eval:
  "runDrawing q_draw rnd_half st_draw (run_of 1 (Some 5)) = (Inr drawn_1, Drawing_save drawn_1 st_draw)"
  by code_simp


subsection \<open>The winners\<close>




subsection \<open>The errors\<close>

text \<open>
  C5. The errors of \<open>runDrawing\<close>, in the order of its checks: a missing or non-positive
  \<open>numberOfWinners\<close> is answered 400; otherwise a missing drawing 404; otherwise a
  completed drawing 409; otherwise no active station 400; otherwise no eligible class
  (an empty entry pool) 400. In each of these cases the store is left as it was, so no
  winners are selected. In the one remaining case the run succeeds and saves the
  drawing as completed: there is no other error.
\<close>

theorem runDrawing_errors:
  "(\<not> valid_count req \<longrightarrow>
      runDrawing q rnd st req = (Inl (ErrorResponse InvalidWinners 400), st))
 \<and> (valid_count req \<and> Drawing_findById st (params_id req) = None \<longrightarrow>
      runDrawing q rnd st req = (Inl (ErrorResponse DrawingNotFound 404), st))
 \<and> (\<forall>d. valid_count req \<and> Drawing_findById st (params_id req) = Some d \<longrightarrow>
      (status d = Completed \<longrightarrow>
         runDrawing q rnd st req = (Inl (ErrorResponse DrawingCompleted 409), st))
    \<and> (status d = Pending \<and> Station_count_active st = 0 \<longrightarrow>
         runDrawing q rnd st req = (Inl (ErrorResponse NoActiveStations 400), st))
    \<and> (status d = Pending \<and> 0 < Station_count_active st \<and> eligible_classes q st = [] \<longrightarrow>
         runDrawing q rnd st req = (Inl (ErrorResponse NoEligibleClasses 400), st))
    \<and> (status d = Pending \<and> 0 < Station_count_active st \<and> eligible_classes q st \<noteq> [] \<longrightarrow>
         (\<exists>d'. runDrawing q rnd st req = (Inr d', Drawing_save d' st) \<and> status d' = Completed)))"
proof (intro conjI allI impI)
  fix d
  assume a: "valid_count req \<and> Drawing_findById st (params_id req) = Some d"
  assume b: "status d = Pending \<and> 0 < Station_count_active st \<and> eligible_classes q st \<noteq> []"
  from a obtain n where n: "numberOfWinners req = Some n" "0 < fl n"
    by (auto simp: valid_count_def split: option.splits)
  from runDrawing_success [OF n, of st d q rnd] a b
  show "\<exists>d'. runDrawing q rnd st req = (Inr d', Drawing_save d' st) \<and> status d' = Completed"
    by auto
qed (simp_all add: runDrawing_invalid runDrawing_not_found runDrawing_completed
      runDrawing_no_stations runDrawing_no_eligible)


theorem runDrawing_errors_witness:
  "\<not> valid_count (run_of 1 None) \<and> \<not> valid_count (run_of 1 (Some 0))
   \<and> \<not> valid_count (run_of 1 (Some (- 2)))
   \<and> runDrawing q_draw rnd_half st_draw (run_of 1 None)
        = (Inl (ErrorResponse InvalidWinners 400), st_draw)
   \<and> runDrawing q_draw rnd_half st_draw (run_of 1 (Some 0))
        = (Inl (ErrorResponse InvalidWinners 400), st_draw)
   \<and> runDrawing q_draw rnd_half st_draw (run_of 1 (Some (- 2)))
        = (Inl (ErrorResponse InvalidWinners 400), st_draw)
   \<and> valid_count (run_of 4 (Some 1)) \<and> Drawing_findById st_draw 4 = None
   \<and> runDrawing q_draw rnd_half st_draw (run_of 4 (Some 1))
        = (Inl (ErrorResponse DrawingNotFound 404), st_draw)
   \<and> Drawing_findById st_draw 3 = Some (drawing_of 3 [8] Completed)
   \<and> runDrawing q_draw rnd_half st_draw (run_of 3 (Some 1))
        = (Inl (ErrorResponse DrawingCompleted 409), st_draw)
   \<and> Drawing_findById st_closed 1 = Some (drawing_of 1 [] Pending)
   \<and> Station_count_active st_closed = 0
   \<and> runDrawing q_draw rnd_half st_closed (run_of 1 (Some 1))
        = (Inl (ErrorResponse NoActiveStations 400), st_closed)
   \<and> Drawing_findById st_draw 1 = Some (drawing_of 1 [] Pending)
   \<and> eligible_classes (\<lambda>c. []) st_draw = []
   \<and> runDrawing (\<lambda>c. []) rnd_half st_draw (run_of 1 (Some 1))
        = (Inl (ErrorResponse NoEligibleClasses 400), st_draw)
   \<and> eligible_classes q_draw st_draw = [class_of 8, class_of 9]
   \<and> (\<exists>d'. runDrawing q_draw rnd_half st_draw (run_of 1 (Some 5))
              = (Inr d', Drawing_save d' st_draw) \<and> status d' = Completed)"
proof -
  have v: "\<not> valid_count (run_of 1 None)" "\<not> valid_count (run_of 1 (Some 0))"
    "\<not> valid_count (run_of 1 (Some (- 2)))" "valid_count (run_of i (Some 1))"
    "valid_count (run_of 1 (Some 5))" for i
    by (simp_all add: valid_count_def run_of_def fl_numerals)
  have f: "Drawing_findById st_draw 4 = None"
    "Drawing_findById st_draw 3 = Some (drawing_of 3 [8] Completed)"
    "Drawing_findById st_draw 1 = Some (drawing_of 1 [] Pending)"
    "Drawing_findById st_closed 1 = Some (drawing_of 1 [] Pending)"
    by (simp_all add: Drawing_findById_def st_draw_def st_closed_def drawing_of_def)
  have s: "Station_count_active st_closed = 0" "0 < Station_count_active st_draw"
    by (simp_all add: Station_count_active_def Station_find_active_def st_closed_def st_draw_def)
  have e: "eligible_classes (\<lambda>c. []) st_draw = []"
    by (simp add: eligible_classes_def eligible_def Station_count_active_def
        Station_find_active_def st_draw_def)
  have e': "eligible_classes q_draw st_draw = [class_of 8, class_of 9]"
    by (simp add: eligible_classes_def eligible_def Station_count_active_def
        Station_find_active_def Class_find_active_def st_draw_def q_draw_def class_of_def)
  have p: "params_id (run_of i n) = i" "status (drawing_of i l x) = x" for i n l x
    by (simp_all add: run_of_def drawing_of_def)
  note t = runDrawing_errors [of _ q_draw rnd_half st_draw]
  from t [of "run_of 1 None"] v(1)
  have 1: "runDrawing q_draw rnd_half st_draw (run_of 1 None)
        = (Inl (ErrorResponse InvalidWinners 400), st_draw)" by simp
  from t [of "run_of 1 (Some 0)"] v(2)
  have 2: "runDrawing q_draw rnd_half st_draw (run_of 1 (Some 0))
        = (Inl (ErrorResponse InvalidWinners 400), st_draw)" by simp
  from t [of "run_of 1 (Some (- 2))"] v(3)
  have 3: "runDrawing q_draw rnd_half st_draw (run_of 1 (Some (- 2)))
        = (Inl (ErrorResponse InvalidWinners 400), st_draw)" by simp
  from t [of "run_of 4 (Some 1)"] v(4) f(1)
  have 4: "runDrawing q_draw rnd_half st_draw (run_of 4 (Some 1))
        = (Inl (ErrorResponse DrawingNotFound 404), st_draw)" by (simp add: p)
  from t [of "run_of 3 (Some 1)"] v(4) f(2)
  have 5: "runDrawing q_draw rnd_half st_draw (run_of 3 (Some 1))
        = (Inl (ErrorResponse DrawingCompleted 409), st_draw)" by (simp add: p)
  from runDrawing_errors [of "run_of 1 (Some 1)" q_draw rnd_half st_closed] v(4) f(4) s(1)
  have 6: "runDrawing q_draw rnd_half st_closed (run_of 1 (Some 1))
        = (Inl (ErrorResponse NoActiveStations 400), st_closed)" by (simp add: p)
  from runDrawing_errors [of "run_of 1 (Some 1)" "\<lambda>c. []" rnd_half st_draw] v(4) f(3) s(2) e
  have 7: "runDrawing (\<lambda>c. []) rnd_half st_draw (run_of 1 (Some 1))
        = (Inl (ErrorResponse NoEligibleClasses 400), st_draw)" by (simp add: p)
  from t [of "run_of 1 (Some 5)"] v(5) f(3) s(2) e'
  have 8: "\<exists>d'. runDrawing q_draw rnd_half st_draw (run_of 1 (Some 5))
              = (Inr d', Drawing_save d' st_draw) \<and> status d' = Completed" by (simp add: p)
  from v f s e e' 1 2 3 4 5 6 7 8 show ?thesis by simp
qed

subsection \<open>Eligibility\<close>

text \<open>
  No Scan document has the path \<open>class\<close>, so the store answers nothing to the drawing
  controller's query, whatever Scans \<open>recordScan\<close> has written: on the store itself the
  eligible-classes query lists no class and \<open>runDrawing\<close> never succeeds.
\<close>

lemma Scan_find_class_Nil: "Scan_find_class st i = []"
  by (simp add: Scan_find_class_def Scan_find_by_def scan_path_def List.map_filter_simps)

lemma eligible_classes_store: "0 < Station_count_active st \<Longrightarrow> eligible_classes (Scan_find_class st) st = []"
  by (simp add: eligible_classes_def eligible_def [abs_def] Scan_find_class_Nil)

lemma getEligibleClassesForDrawing_store:
  "getEligibleClassesForDrawing (Scan_find_class st) st
     = (if Station_count_active st = 0 then Inl (ErrorResponse NoActiveStations 400) else Inr [])"
  by (simp add: getEligibleClassesForDrawing_def Scan_find_class_Nil stationsFoundCount_def
      uniqueStationsScanned_def Station_count_active_def Let_def)

lemma runDrawing_store_never_succeeds:
  "fst (runDrawing (Scan_find_class st) rnd st req) \<noteq> Inr d'"
proof
  assume a: "fst (runDrawing (Scan_find_class st) rnd st req) = Inr d'"
  then have "runDrawing (Scan_find_class st) rnd st req
      = (Inr d', snd (runDrawing (Scan_find_class st) rnd st req))"
    by (simp add: prod_eq_iff)
  then obtain n d where "0 < Station_count_active st"
    "eligible_classes (Scan_find_class st) st \<noteq> []"
    by (rule runDrawing_Inr)
  then show False by (simp add: eligible_classes_store)
qed

text \<open>
  C1 fails in the code. Two stations are active and class 5 scans both through
  \<open>recordScan\<close>: the Scan collection then holds a Scan of class 5 for every active station
  and the class document is completed. The claim has the class eligible. The
  eligible-classes query answers the empty list, and \<open>runDrawing\<close> on the new drawing 1
  answers 400, no eligible class, and leaves the drawing as it was: the controller reads
  the Scans of a class by the paths \<open>class\<close> and \<open>station\<close>, which the Scan documents do not
  have.
\<close>

theorem full_scan_history_not_eligible:
  "scan_docs st_found = [\<lparr>classId = 5, stationId = 1, scannedAt = 36000000\<rparr>,
                         \<lparr>classId = 5, stationId = 2, scannedAt = 36300000\<rparr>]
   \<and> map station_id (Station_find_active st_found) = [1, 2]
   \<and> map class_id (Class_find_active st_found) = [5]
   \<and> map isCompleted (Class_find_active st_found) = [True]
   \<and> card (stationId ` set (Scan_find_by st_found ''classId'' 5)) = Station_count_active st_found
   \<and> Scan_find_class st_found 5 = []
   \<and> getEligibleClassesForDrawing (Scan_find_class st_found) st_found = Inr []
   \<and> runDrawing (Scan_find_class st_found) rnd_half st_found (run_of 1 (Some 1))
        = (Inl (ErrorResponse NoEligibleClasses 400), st_found)"
  by code_simp

subsection \<open>A completed drawing\<close>

text \<open>
  C6. Running a completed drawing again is a conflict and changes nothing. For a
  drawing found with the status completed, the store after the call is the store
  before, so the drawing found under the id is the same document, with its \<open>winners\<close>,
  \<open>eligibleClasses\<close> and \<open>status\<close>; and every request that passes the controller's first
  check (a positive \<open>numberOfWinners\<close>, checked before the drawing is looked up) is
  answered the conflict 409.
\<close>

theorem runDrawing_completed_drawing_unchanged:
  assumes "Drawing_findById st (params_id req) = Some d" "status d = Completed"
  shows "snd (runDrawing q rnd st req) = st
    \<and> Drawing_findById (snd (runDrawing q rnd st req)) (params_id req) = Some d
    \<and> (valid_count req \<longrightarrow>
         runDrawing q rnd st req = (Inl (ErrorResponse DrawingCompleted 409), st))"
  using assms runDrawing_invalid [of req q rnd st] runDrawing_completed [of req st d q rnd]
  by (cases "valid_count req") simp_all

theorem runDrawing_completed_drawing_unchanged_witness:
  "runDrawing q_draw rnd_half st_draw (run_of 1 (Some 5))
     = (Inr drawn_1, Drawing_save drawn_1 st_draw)
   \<and> Drawing_findById (Drawing_save drawn_1 st_draw) 1 = Some drawn_1
   \<and> status drawn_1 = Completed \<and> valid_count (run_of 1 (Some 5))
   \<and> runDrawing q_draw rnd_half (Drawing_save drawn_1 st_draw) (run_of 1 (Some 5))
        = (Inl (ErrorResponse DrawingCompleted 409), Drawing_save drawn_1 st_draw)"
proof -
  have f: "Drawing_findById (Drawing_save drawn_1 st_draw) (params_id (run_of 1 (Some 5))) = Some drawn_1"
    by (simp add: Drawing_findById_def Drawing_save_def st_draw_def drawn_1_def drawing_of_def
        run_of_def)
  have c: "status drawn_1 = Completed"
    by (simp add: drawn_1_def drawing_of_def)
  have v: "valid_count (run_of 1 (Some 5))"
    by (simp add: valid_count_def run_of_def fl_5)
  from runDrawing_completed_drawing_unchanged [OF f c, of q_draw rnd_half] v
  have "runDrawing q_draw rnd_half (Drawing_save drawn_1 st_draw) (run_of 1 (Some 5))
        = (Inl (ErrorResponse DrawingCompleted 409), Drawing_save drawn_1 st_draw)"
    by simp
  with f c v run_1_eval show ?thesis by (simp add: run_of_def)
qed

subsection \<open>No active station, on both paths\<close>

lemma check_completion_no_active_station:
  "Station_count_active st = 0 \<Longrightarrow> stationsScanned c \<noteq> [] \<Longrightarrow> check_completion st clk c = c"
  by (simp add: check_completion_def)

text \<open>
  C9, as claimed, fails: no call of \<open>recordScan\<close> on a store without an active station
  marks a class completed. The scanned station must be found and active, so with no
  active station every request is rejected before the class is touched. (The branch that
  would mark the class completed asks for \<open>totalActiveStations = 0\<close> and an empty
  \<open>stationsScanned\<close>, right after the scanned station was put into \<open>stationsScanned\<close>.)
\<close>

theorem recordScan_zero_active_never_completes:
  "\<not> (\<exists>st req clk cid c c'. Station_count_active st = 0 \<and> Class_findById st cid = Some c
        \<and> \<not> isCompleted c \<and> Class_findById (snd (recordScan st req clk)) cid = Some c'
        \<and> isCompleted c')"
proof
  assume "\<exists>st req clk cid c c'. Station_count_active st = 0 \<and> Class_findById st cid = Some c
        \<and> \<not> isCompleted c \<and> Class_findById (snd (recordScan st req clk)) cid = Some c'
        \<and> isCompleted c'"
  then obtain st req clk cid c c' where h: "Station_count_active st = 0"
    "Class_findById st cid = Some c" "\<not> isCompleted c"
    "Class_findById (snd (recordScan st req clk)) cid = Some c'" "isCompleted c'"
    by blast
  from recordScan_no_active_stations [OF h(1), of req clk] have "snd (recordScan st req clk) = st"
    by simp
  with h(2,4) have "c' = c" by simp
  with h(3,5) show False by simp
qed

text \<open>
  C9, amended. With no active station, \<open>recordScan\<close> rejects every request (400 for
  missing fields, 404 for an unknown station, 400 for an inactive one) and leaves the
  store as it was: no class is marked completed. The eligible-classes query answers
  400, and \<open>runDrawing\<close> answers an error and leaves the store as it was: 400 for no active
  stations once the winner count is valid and the drawing is found pending.
\<close>

theorem zero_active_stations_rejected:
  assumes "Station_count_active st = 0"
  shows "snd (recordScan st req clk) = st
    \<and> (fst (recordScan st req clk) = Inl (ErrorResponse MissingScanFields 400)
       \<or> fst (recordScan st req clk) = Inl (ErrorResponse StationNotFound 404)
       \<or> fst (recordScan st req clk) = Inl (ErrorResponse StationNotActive 400))
    \<and> getEligibleClassesForDrawing q st = Inl (ErrorResponse NoActiveStations 400)
    \<and> snd (runDrawing q rnd st rq) = st
    \<and> (fst (runDrawing q rnd st rq) = Inl (ErrorResponse InvalidWinners 400)
       \<or> fst (runDrawing q rnd st rq) = Inl (ErrorResponse DrawingNotFound 404)
       \<or> fst (runDrawing q rnd st rq) = Inl (ErrorResponse DrawingCompleted 409)
       \<or> fst (runDrawing q rnd st rq) = Inl (ErrorResponse NoActiveStations 400))"
proof -
  have g: "getEligibleClassesForDrawing q st = Inl (ErrorResponse NoActiveStations 400)"
    using assms by (simp add: getEligibleClassesForDrawing_def Station_count_active_def)
  have r: "snd (runDrawing q rnd st rq) = st
    \<and> (fst (runDrawing q rnd st rq) = Inl (ErrorResponse InvalidWinners 400)
       \<or> fst (runDrawing q rnd st rq) = Inl (ErrorResponse DrawingNotFound 404)
       \<or> fst (runDrawing q rnd st rq) = Inl (ErrorResponse DrawingCompleted 409)
       \<or> fst (runDrawing q rnd st rq) = Inl (ErrorResponse NoActiveStations 400))"
  proof (cases "valid_count rq")
    case False
    then show ?thesis by (simp add: runDrawing_invalid)
  next
    case True
    show ?thesis
    proof (cases "Drawing_findById st (params_id rq)")
      case None
      with True show ?thesis by (simp add: runDrawing_not_found)
    next
      case (Some d)
      show ?thesis
      proof (cases "status d")
        case Pending
        with True Some assms show ?thesis by (simp add: runDrawing_no_stations)
      next
        case Completed
        with True Some show ?thesis by (simp add: runDrawing_completed)
      qed
    qed
  qed
  from recordScan_no_active_stations [OF assms, of req clk] g r show ?thesis by simp
qed


theorem zero_active_stations_rejected_witness:
  "Station_count_active st_closed = 0
   \<and> recordScan st_closed \<lparr>req_classId = Some 7, req_stationQRCode = Some 1\<rparr> clk_100
        = (Inl (ErrorResponse StationNotActive 400), st_closed)
   \<and> getEligibleClassesForDrawing q_draw st_closed = Inl (ErrorResponse NoActiveStations 400)
   \<and> runDrawing q_draw rnd_half st_closed (run_of 1 (Some 1))
        = (Inl (ErrorResponse NoActiveStations 400), st_closed)"
proof -
  have z: "Station_count_active st_closed = 0"
    by (simp add: Station_count_active_def Station_find_active_def st_closed_def)
  note t = zero_active_stations_rejected [OF z,
      of "\<lparr>req_classId = Some 7, req_stationQRCode = Some 1\<rparr>" clk_100 q_draw rnd_half
         "run_of 1 (Some 1)"]
  have 1: "fst (recordScan st_closed \<lparr>req_classId = Some 7, req_stationQRCode = Some 1\<rparr> clk_100)
        = Inl (ErrorResponse StationNotActive 400)"
    by (simp add: recordScan_def Station_findById_def st_closed_def)
  have 2: "fst (runDrawing q_draw rnd_half st_closed (run_of 1 (Some 1)))
        = Inl (ErrorResponse NoActiveStations 400)"
    by (simp add: runDrawing_def run_of_def Drawing_findById_def st_closed_def st_draw_def
        drawing_of_def Station_find_active_def fl_1)
  from t 1 2 z show ?thesis by (simp add: prod_eq_iff)
qed

subsection \<open>The weight of an eligible class\<close>



















section \<open>Properties of getClassProgress\<close>

text \<open>
  C4 fails in the code. With two active stations, the class registered at 09:00 scans
  station 1 at 10:00 and station 2 at 10:05, and its teacher asks for the progress. The
  claim, and the controller's unit test, have \<open>completionTime = 5\<close>, the minutes from the
  earliest scan to the latest. The query answers \<open>completedCount = 2\<close>, \<open>totalStations = 2\<close>,
  \<open>isCompleted = true\<close> and \<open>completionTime = 65\<close>: it measures from the class's
  \<open>registeredAt\<close> to its \<open>completedAt\<close> and never reads a scan's time.
\<close>

theorem getClassProgress_completionTime_from_registration:
  "scan_docs st_found = [\<lparr>classId = 5, stationId = 1, scannedAt = 36000000\<rparr>,
                         \<lparr>classId = 5, stationId = 2, scannedAt = 36300000\<rparr>]
   \<and> fl (fl (rat_of_int (36300000 - 36000000)) / (1000 * 60)) = 5
   \<and> Class_findById st_found 5
        = Some (hunt_class\<lparr>stationsScanned := [1, 2], isCompleted := True,
                  lastScanAt := Some 36300000, completedAt := Some 36300000\<rparr>)
   \<and> getClassProgress st_found teacher_9 5
      = Inr \<lparr>completedCount = 2, totalStations = 2, progressPercentage = 100,
             progress_isCompleted = True, progress_completedAt = Some 36300000,
             progress_lastScanAt = Some 36300000, progress_completionTime = Some 65\<rparr>"
  by code_simp

end
